theory Spec2Isabelle
  imports Main "HOL-Library.Sublist"
begin

section \<open>Strings of the classification engine\<close>

text \<open>
  The engine (ticketRules: the rule tables and the utility functions below them) works on
  JavaScript strings. A text is modelled as a \<^typ>\<open>string\<close>, each \<^typ>\<open>char\<close> standing for
  one code unit below 256 (the Basic Latin and Latin-1 blocks). On these code units
  \<^verbatim>\<open>String.prototype.toLowerCase\<close> maps \<^verbatim>\<open>A-Z\<close> to \<^verbatim>\<open>a-z\<close>, the Latin-1 capitals
  \<^verbatim>\<open>0xC0-0xD6\<close> and \<^verbatim>\<open>0xD8-0xDE\<close> to the code unit 32 above, and leaves every other
  code unit alone.
\<close>

definition toLowerCase_char :: "char \<Rightarrow> char" where
  "toLowerCase_char c =
     (let n = (of_char c :: nat)
      in if (65 \<le> n \<and> n \<le> 90) \<or> (192 \<le> n \<and> n \<le> 214) \<or> (216 \<le> n \<and> n \<le> 222)
         then char_of (n + 32) else c)"

definition toLowerCase :: "string \<Rightarrow> string" where
  "toLowerCase s = map toLowerCase_char s"

text \<open>\<^verbatim>\<open>s.startsWith(k)\<close> and \<^verbatim>\<open>s.includes(k)\<close> (\<open>includes_str\<close> below): \<open>k\<close> occurs
  in \<open>s\<close> at position 0, respectively at some position.\<close>

fun startsWith :: "string \<Rightarrow> string \<Rightarrow> bool" where
  "startsWith s [] = True"
| "startsWith [] (k # ks) = False"
| "startsWith (c # cs) (k # ks) = (c = k \<and> startsWith cs ks)"

fun includes_str :: "string \<Rightarrow> string \<Rightarrow> bool" where
  "includes_str [] k = (k = [])"
| "includes_str (c # cs) k = (startsWith (c # cs) k \<or> includes_str cs k)"

section \<open>Objects and property lookup\<close>

text \<open>
  The rule tables are object literals. Reading \<^verbatim>\<open>table[key]\<close> gives the value of the
  table's own property of that name; where the table has no such property the lookup goes
  on to the prototype of every object literal, \<^verbatim>\<open>Object.prototype\<close>, whose members are
  functions (and, for \<^verbatim>\<open>__proto__\<close>, the prototype object itself); where that has none
  either the result is \<^verbatim>\<open>undefined\<close>. An own property keeps its declared position:
  \<^verbatim>\<open>Object.entries\<close> lists the entries of a table in the order they are written.
\<close>

datatype 'a jsvalue = Entry 'a | Builtin string | Null | Undefined

definition ObjectPrototype :: "string list" where
  "ObjectPrototype =
     [''constructor'', ''__defineGetter__'', ''__defineSetter__'', ''hasOwnProperty'',
      ''__lookupGetter__'', ''__lookupSetter__'', ''isPrototypeOf'', ''propertyIsEnumerable'',
      ''toString'', ''valueOf'', ''__proto__'', ''toLocaleString'']"

definition getMember :: "(string \<times> 'a) list \<Rightarrow> string \<Rightarrow> 'a jsvalue" where
  "getMember table key =
     (case map_of table key of
        Some v \<Rightarrow> Entry v
      | None \<Rightarrow> if key \<in> set ObjectPrototype then Builtin key else Undefined)"

text \<open>\<^verbatim>\<open>a || b\<close>: \<open>a\<close> when it is truthy (every object and function is), else \<open>b\<close>.\<close>

definition truthy :: "'a jsvalue \<Rightarrow> bool" where
  "truthy v = (case v of Entry _ \<Rightarrow> True | Builtin _ \<Rightarrow> True | Null \<Rightarrow> False | Undefined \<Rightarrow> False)"

definition orElse :: "'a jsvalue \<Rightarrow> 'a jsvalue \<Rightarrow> 'a jsvalue" where
  "orElse a b = (if truthy a then a else b)"

section \<open>The rule tables\<close>

record SLARule =
  label :: string
  responseMinutes :: int
  resolutionHours :: int
  escalationHours :: int
  description :: string

definition SLA_RULES :: "(string \<times> SLARule) list" where
  "SLA_RULES =
     [(''critical'', \<lparr>label = ''Critical'', responseMinutes = 15, resolutionHours = 2,
         escalationHours = 1,
         description = ''Immediate response required for safety/security issues''\<rparr>),
      (''high'', \<lparr>label = ''High'', responseMinutes = 60, resolutionHours = 8,
         escalationHours = 4,
         description = ''Urgent issues affecting customer experience''\<rparr>),
      (''medium'', \<lparr>label = ''Medium'', responseMinutes = 240, resolutionHours = 24,
         escalationHours = 12,
         description = ''Standard priority for general issues''\<rparr>),
      (''low'', \<lparr>label = ''Low'', responseMinutes = 480, resolutionHours = 72,
         escalationHours = 48,
         description = ''Non-urgent requests and feedback''\<rparr>)]"

record EscalationRule =
  escalateTo :: string
  priority :: string
  immediate :: bool
  notifyLevel :: string

definition ESCALATION_RULES :: "(string \<times> EscalationRule) list" where
  "ESCALATION_RULES =
     [(''Injury During Class'', \<lparr>escalateTo = ''Management'', priority = ''critical'',
         immediate = True, notifyLevel = ''all''\<rparr>),
      (''Medical Emergency'', \<lparr>escalateTo = ''Management'', priority = ''critical'',
         immediate = True, notifyLevel = ''all''\<rparr>),
      (''Theft'', \<lparr>escalateTo = ''Security'', priority = ''critical'',
         immediate = True, notifyLevel = ''management''\<rparr>),
      (''Safety Hazard'', \<lparr>escalateTo = ''Facilities'', priority = ''critical'',
         immediate = True, notifyLevel = ''management''\<rparr>),
      (''Fire/Emergency'', \<lparr>escalateTo = ''Management'', priority = ''critical'',
         immediate = True, notifyLevel = ''all''\<rparr>),
      (''Medical Disclosure'', \<lparr>escalateTo = ''HR'', priority = ''high'',
         immediate = True, notifyLevel = ''department''\<rparr>),
      (''Discrimination'', \<lparr>escalateTo = ''HR'', priority = ''high'',
         immediate = False, notifyLevel = ''management''\<rparr>),
      (''Staff Misconduct'', \<lparr>escalateTo = ''HR'', priority = ''high'',
         immediate = False, notifyLevel = ''management''\<rparr>),
      (''Payment Processing'', \<lparr>escalateTo = ''Finance'', priority = ''high'',
         immediate = False, notifyLevel = ''department''\<rparr>),
      (''Harassment'', \<lparr>escalateTo = ''HR'', priority = ''high'',
         immediate = True, notifyLevel = ''management''\<rparr>),
      (''Data Breach'', \<lparr>escalateTo = ''IT/Tech Support'', priority = ''critical'',
         immediate = True, notifyLevel = ''all''\<rparr>),
      (''Refund Request'', \<lparr>escalateTo = ''Finance'', priority = ''medium'',
         immediate = False, notifyLevel = ''department''\<rparr>),
      (''Equipment Damage'', \<lparr>escalateTo = ''Facilities'', priority = ''medium'',
         immediate = False, notifyLevel = ''department''\<rparr>),
      (''App Outage'', \<lparr>escalateTo = ''IT/Tech Support'', priority = ''high'',
         immediate = True, notifyLevel = ''department''\<rparr>)]"

record DepartmentRoute =
  primary :: string
  secondary :: string
  escalationPath :: "string list"

definition DEPARTMENT_ROUTING :: "(string \<times> DepartmentRoute) list" where
  "DEPARTMENT_ROUTING =
     [(''Booking & Technology'', \<lparr>primary = ''IT/Tech Support'', secondary = ''Operations'',
         escalationPath = [''IT/Tech Support'', ''Operations'', ''Management'']\<rparr>),
      (''Customer Service'', \<lparr>primary = ''Client Success'', secondary = ''Operations'',
         escalationPath = [''Client Success'', ''Operations'', ''Management'']\<rparr>),
      (''Health & Safety'', \<lparr>primary = ''Operations'', secondary = ''Facilities'',
         escalationPath = [''Operations'', ''Facilities'', ''Management'']\<rparr>),
      (''Retail Management'', \<lparr>primary = ''Sales'', secondary = ''Operations'',
         escalationPath = [''Sales'', ''Operations'', ''Finance'']\<rparr>),
      (''Community & Culture'', \<lparr>primary = ''HR'', secondary = ''Operations'',
         escalationPath = [''HR'', ''Operations'', ''Management'']\<rparr>),
      (''Sales & Marketing'', \<lparr>primary = ''Sales'', secondary = ''Marketing'',
         escalationPath = [''Sales'', ''Marketing'', ''Management'']\<rparr>),
      (''Special Programs'', \<lparr>primary = ''Operations'', secondary = ''Training'',
         escalationPath = [''Operations'', ''Training'', ''Management'']\<rparr>),
      (''Miscellaneous'', \<lparr>primary = ''Operations'', secondary = ''Client Success'',
         escalationPath = [''Operations'', ''Client Success'', ''Management'']\<rparr>),
      (''Global'', \<lparr>primary = ''Management'', secondary = ''Operations'',
         escalationPath = [''Management'', ''Operations'']\<rparr>)]"

definition PRIORITY_KEYWORDS :: "(string \<times> string list) list" where
  "PRIORITY_KEYWORDS =
     [(''critical'',
        [''emergency'', ''injury'', ''hurt'', ''bleeding'', ''unconscious'', ''theft'', ''stolen'',
         ''fire'', ''safety hazard'', ''medical emergency'', ''cardiac'', ''ambulance'', ''police'',
         ''violence'', ''assault'', ''weapon'', ''threat'']),
      (''high'',
        [''angry'', ''furious'', ''upset'', ''complaint'', ''refund'', ''payment failed'',
         ''overcharged'', ''rude staff'', ''misconduct'', ''discrimination'', ''harassment'',
         ''unacceptable'', ''demand'', ''legal'', ''lawyer'', ''manager'', ''escalate'',
         ''immediate'', ''urgent'']),
      (''medium'',
        [''issue'', ''problem'', ''not working'', ''broken'', ''feedback'', ''concern'',
         ''question'', ''help'', ''confused'', ''disappointed'', ''trouble'', ''incorrect'']),
      (''low'',
        [''suggestion'', ''feature request'', ''minor'', ''when possible'', ''no rush'',
         ''idea'', ''consider'', ''future'', ''nice to have'', ''optional''])]"

definition CATEGORY_KEYWORDS :: "(string \<times> string list) list" where
  "CATEGORY_KEYWORDS =
     [(''Booking & Technology'',
        [''app'', ''website'', ''login'', ''password'', ''booking'', ''reservation'', ''payment'',
         ''credit card'', ''crashed'', ''error'', ''bug'', ''notification'', ''link'', ''download'',
         ''mobile'', ''browser'', ''account'', ''email verification'', ''sync'', ''loading'']),
      (''Customer Service'',
        [''staff'', ''front desk'', ''service'', ''attitude'', ''rude'', ''unhelpful'',
         ''wait time'', ''response'', ''communication'', ''receptionist'', ''greeting'',
         ''check-in'', ''professional'']),
      (''Health & Safety'',
        [''injury'', ''hurt'', ''accident'', ''medical'', ''unsafe'', ''equipment broken'',
         ''cleaning'', ''hygiene'', ''covid'', ''sanitize'', ''ventilation'', ''temperature'',
         ''slippery'', ''hazard'']),
      (''Retail Management'',
        [''product'', ''merchandise'', ''purchase'', ''price'', ''return'', ''exchange'', ''size'',
         ''stock'', ''sold out'', ''defective'', ''quality'', ''water bottle'', ''towel'', ''mat'']),
      (''Community & Culture'',
        [''member'', ''clique'', ''exclusion'', ''discrimination'', ''inclusive'', ''culture'',
         ''behavior'', ''community'', ''atmosphere'', ''welcoming'', ''friendly'']),
      (''Sales & Marketing'',
        [''promotion'', ''discount'', ''membership'', ''trial'', ''referral'', ''advertisement'',
         ''misleading'', ''social media'', ''package'', ''pricing'', ''contract'',
         ''cancellation'']),
      (''Special Programs'',
        [''workshop'', ''event'', ''private session'', ''corporate'', ''challenge'',
         ''competition'', ''special class'', ''masterclass'', ''retreat'', ''popup''])]"

definition MEMBER_EXPERIENCE_KEYWORDS :: "string list" where
  "MEMBER_EXPERIENCE_KEYWORDS =
     [''class'', ''trainer'', ''instructor'', ''teacher'', ''session'', ''workout'', ''exercise'',
      ''form'', ''technique'', ''music'', ''volume'', ''pace'', ''level'', ''difficulty'',
      ''crowded'', ''space'', ''equipment'', ''mat'', ''props'', ''late'', ''early'',
      ''substitution'', ''sub'', ''replacement'', ''quality'', ''experience'', ''vibe'']"

section \<open>Detection of priority and category\<close>

text \<open>The inner loop of \<^verbatim>\<open>detectPriority\<close> and \<^verbatim>\<open>requiresClassDetails\<close>: it leaves with
  \<open>True\<close> at the first keyword whose lower-cased form occurs in the lower-cased text.\<close>

fun anyKeyword :: "string \<Rightarrow> string list \<Rightarrow> bool" where
  "anyKeyword lowerText [] = False"
| "anyKeyword lowerText (keyword # keywords) =
     (if includes_str lowerText (toLowerCase keyword) then True else anyKeyword lowerText keywords)"

text \<open>The outer loop of \<^verbatim>\<open>detectPriority\<close> over the entries of the keyword table; when it
  runs to its end the function returns \<^verbatim>\<open>'medium'\<close>.\<close>

fun scanPriorities :: "string \<Rightarrow> (string \<times> string list) list \<Rightarrow> string" where
  "scanPriorities lowerText [] = ''medium''"
| "scanPriorities lowerText ((prio, keywords) # entries) =
     (if anyKeyword lowerText keywords then prio else scanPriorities lowerText entries)"

definition detectPriority :: "string \<Rightarrow> string" where
  "detectPriority text = scanPriorities (toLowerCase text) PRIORITY_KEYWORDS"

text \<open>The inner loop of \<^verbatim>\<open>detectCategory\<close>: \<^verbatim>\<open>matches++\<close> for each keyword that occurs.\<close>

fun countMatches :: "string \<Rightarrow> string list \<Rightarrow> nat \<Rightarrow> nat" where
  "countMatches lowerText [] matches = matches"
| "countMatches lowerText (keyword # keywords) matches =
     countMatches lowerText keywords
       (if includes_str lowerText (toLowerCase keyword) then matches + 1 else matches)"

text \<open>The outer loop of \<^verbatim>\<open>detectCategory\<close>, with its two variables \<^verbatim>\<open>bestMatch\<close> and
  \<^verbatim>\<open>maxMatches\<close>.\<close>

fun scanCategories :: "string \<Rightarrow> (string \<times> string list) list \<Rightarrow> string \<times> nat \<Rightarrow> string \<times> nat" where
  "scanCategories lowerText [] (bestMatch, maxMatches) = (bestMatch, maxMatches)"
| "scanCategories lowerText ((category, keywords) # entries) (bestMatch, maxMatches) =
     (let matches = countMatches lowerText keywords 0
      in if matches > maxMatches
         then scanCategories lowerText entries (category, matches)
         else scanCategories lowerText entries (bestMatch, maxMatches))"

definition detectCategory :: "string \<Rightarrow> string" where
  "detectCategory text =
     fst (scanCategories (toLowerCase text) CATEGORY_KEYWORDS (''Customer Service'', 0))"

definition requiresClassDetails :: "string \<Rightarrow> string \<Rightarrow> string \<Rightarrow> bool" where
  "requiresClassDetails text prio category =
     (let lowerText = toLowerCase text
      in if prio = ''critical'' then True
         else if (category = ''Customer Service'' \<or> category = ''Health & Safety'')
                 \<and> anyKeyword lowerText MEMBER_EXPERIENCE_KEYWORDS then True
         else False)"

section \<open>Lookups in the escalation and routing tables\<close>

definition getEscalationRule :: "string \<Rightarrow> EscalationRule jsvalue" where
  "getEscalationRule subcategory = orElse (getMember ESCALATION_RULES subcategory) Null"

definition getDepartmentRouting :: "string \<Rightarrow> DepartmentRoute jsvalue" where
  "getDepartmentRouting category =
     orElse (getMember DEPARTMENT_ROUTING category) (getMember DEPARTMENT_ROUTING ''Miscellaneous'')"

section \<open>Dates and the service-level deadlines\<close>

text \<open>
  A \<^verbatim>\<open>Date\<close> object holds a time value: a whole number of milliseconds since the epoch,
  at most \<open>8.64e15\<close> in absolute value, or \<^verbatim>\<open>NaN\<close> (an "Invalid Date"). A number that
  may be \<^verbatim>\<open>NaN\<close> is an \<^typ>\<open>int option\<close>, \<open>None\<close> being \<^verbatim>\<open>NaN\<close>; no fraction arises in
  the engine. Arithmetic with \<^verbatim>\<open>NaN\<close> gives \<^verbatim>\<open>NaN\<close>, a comparison with it is false.
\<close>

datatype Date = TimeValue int | InvalidDate

type_synonym number = "int option"

definition num_add :: "number \<Rightarrow> number \<Rightarrow> number" where
  "num_add a b = (case (a, b) of (Some x, Some y) \<Rightarrow> Some (x + y) | _ \<Rightarrow> None)"

definition num_sub :: "number \<Rightarrow> number \<Rightarrow> number" where
  "num_sub a b = (case (a, b) of (Some x, Some y) \<Rightarrow> Some (x - y) | _ \<Rightarrow> None)"

definition num_mul :: "number \<Rightarrow> number \<Rightarrow> number" where
  "num_mul a b = (case (a, b) of (Some x, Some y) \<Rightarrow> Some (x * y) | _ \<Rightarrow> None)"

definition num_gt :: "number \<Rightarrow> number \<Rightarrow> bool" where
  "num_gt a b = (case (a, b) of (Some x, Some y) \<Rightarrow> x > y | _ \<Rightarrow> False)"

definition num_le :: "number \<Rightarrow> number \<Rightarrow> bool" where
  "num_le a b = (case (a, b) of (Some x, Some y) \<Rightarrow> x \<le> y | _ \<Rightarrow> False)"

text \<open>
  The host's time zone is the environment of \<^verbatim>\<open>getHours\<close> and \<^verbatim>\<open>setHours\<close>:
  \<open>utcOffset\<close> is the offset of local time from UTC in force at an instant given in UTC,
  \<open>localOffset\<close> the offset the host applies to a time given on the local clock (where the
  local clock shows a time twice or not at all, the offset before the transition).
\<close>

record TimeZone =
  utcOffset :: "int \<Rightarrow> int"
  localOffset :: "int \<Rightarrow> int"

definition msPerMinute :: int where "msPerMinute = 60000"
definition msPerHour :: int where "msPerHour = 3600000"
definition msPerDay :: int where "msPerDay = 86400000"

definition LocalTime :: "TimeZone \<Rightarrow> int \<Rightarrow> int" where
  "LocalTime tz t = t + utcOffset tz t"

definition UTC :: "TimeZone \<Rightarrow> int \<Rightarrow> int" where
  "UTC tz t = t - localOffset tz t"

definition Day :: "int \<Rightarrow> int" where
  "Day t = t div msPerDay"

definition HourFromTime :: "int \<Rightarrow> int" where
  "HourFromTime t = (t div msPerHour) mod 24"

definition MinFromTime :: "int \<Rightarrow> int" where
  "MinFromTime t = (t div msPerMinute) mod 60"

definition SecFromTime :: "int \<Rightarrow> int" where
  "SecFromTime t = (t div 1000) mod 60"

definition msFromTime :: "int \<Rightarrow> int" where
  "msFromTime t = t mod 1000"

definition MakeTime :: "int \<Rightarrow> int \<Rightarrow> int \<Rightarrow> int \<Rightarrow> int" where
  "MakeTime hour m sec ms = hour * msPerHour + m * msPerMinute + sec * 1000 + ms"

definition MakeDate :: "int \<Rightarrow> int \<Rightarrow> int" where
  "MakeDate day time = day * msPerDay + time"

definition TimeClip :: "int \<Rightarrow> Date" where
  "TimeClip t = (if \<bar>t\<bar> > 8640000000000000 then InvalidDate else TimeValue t)"

definition getTime :: "Date \<Rightarrow> number" where
  "getTime d = (case d of TimeValue t \<Rightarrow> Some t | InvalidDate \<Rightarrow> None)"

definition getHours :: "TimeZone \<Rightarrow> Date \<Rightarrow> number" where
  "getHours tz d =
     (case d of TimeValue t \<Rightarrow> Some (HourFromTime (LocalTime tz t)) | InvalidDate \<Rightarrow> None)"

text \<open>\<^verbatim>\<open>d.setHours(hour)\<close>, as a function from the old time value to the new one: minutes,
  seconds and milliseconds are kept, the hour may exceed 23 and then carries into the day.\<close>

definition setHours :: "TimeZone \<Rightarrow> Date \<Rightarrow> number \<Rightarrow> Date" where
  "setHours tz d hour =
     (case d of
        InvalidDate \<Rightarrow> InvalidDate
      | TimeValue t0 \<Rightarrow>
          (case hour of
             None \<Rightarrow> InvalidDate
           | Some h \<Rightarrow>
               (let t = LocalTime tz t0;
                    date = MakeDate (Day t) (MakeTime h (MinFromTime t) (SecFromTime t) (msFromTime t))
                in TimeClip (UTC tz date))))"

text \<open>
  Reading a numeric field of the result of a table lookup: \<^verbatim>\<open>sla.resolutionHours\<close>. On
  \<^verbatim>\<open>undefined\<close> (and \<^verbatim>\<open>null\<close>) the read throws a \<^verbatim>\<open>TypeError\<close>; a member inherited from
  \<^verbatim>\<open>Object.prototype\<close> has no such field, the read gives \<^verbatim>\<open>undefined\<close>, which is
  \<^verbatim>\<open>NaN\<close> in the arithmetic that follows.
\<close>

datatype exception = TypeError

definition getField :: "('a \<Rightarrow> int) \<Rightarrow> 'a jsvalue \<Rightarrow> exception + number" where
  "getField field v =
     (case v of
        Entry r \<Rightarrow> Inr (Some (field r))
      | Builtin _ \<Rightarrow> Inr None
      | Null \<Rightarrow> Inl TypeError
      | Undefined \<Rightarrow> Inl TypeError)"

text \<open>
  \<^verbatim>\<open>calculateSLADeadline\<close> creates a \<^verbatim>\<open>Date\<close> object and changes it, so it runs on a
  heap of \<^verbatim>\<open>Date\<close> objects: a list, an object's reference being its index, a new object
  taking the next index. \<open>createdAt\<close> is a reference, as in the source, and denotes an
  object of the heap (\<open>createdAt < length h\<close>); the caller always passes it (the default
  \<^verbatim>\<open>new Date()\<close> of the source reads the clock at the call). \<^verbatim>\<open>new Date(createdAt)\<close>
  copies the time value of \<open>createdAt\<close> into the new object. The result is the returned
  reference, or the exception thrown, and the heap left behind.
\<close>

type_synonym heap = "Date list"

definition calculateSLADeadline ::
  "TimeZone \<Rightarrow> string \<Rightarrow> nat \<Rightarrow> heap \<Rightarrow> (exception + nat) \<times> heap" where
  "calculateSLADeadline tz prio createdAt h =
     (let sla = getMember SLA_RULES prio;
          deadline = length h;
          h1 = h @ [h ! createdAt]
      in case getField resolutionHours sla of
           Inl e \<Rightarrow> (Inl e, h1)
         | Inr hours \<Rightarrow>
             (Inr deadline,
              h1[deadline := setHours tz (h1 ! deadline) (num_add (getHours tz (h1 ! deadline)) hours)]))"

text \<open>The two checks read the clock (\<^verbatim>\<open>new Date()\<close>): \<open>now\<close> is that reading. They only
  read \<open>slaDueAt\<close>, which is passed by value.\<close>

definition isNearingSLA :: "int \<Rightarrow> Date \<Rightarrow> string \<Rightarrow> exception + bool" where
  "isNearingSLA now slaDueAt prio =
     (let sla = getMember SLA_RULES prio
      in case getField escalationHours sla of
           Inl e \<Rightarrow> Inl e
         | Inr hours \<Rightarrow>
             (let warningThreshold = num_mul (num_mul (num_mul hours (Some 60)) (Some 60)) (Some 1000);
                  timeRemaining = num_sub (getTime slaDueAt) (Some now)
              in Inr (num_gt timeRemaining (Some 0) \<and> num_le timeRemaining warningThreshold)))"

definition isSLABreached :: "int \<Rightarrow> Date \<Rightarrow> bool" where
  "isSLABreached now slaDueAt = num_gt (Some now) (getTime slaDueAt)"

text \<open>A host zone with a transition, for concrete runs: the United Kingdom around the end
  of summer time on 25 October 2026, 01:00 UTC (\<open>1792890000000\<close>), when the local clock
  goes back from 02:00 to 01:00.\<close>

definition EuropeLondon2026 :: TimeZone where
  "EuropeLondon2026 =
     \<lparr>utcOffset = (\<lambda>t. if t < 1792890000000 then 3600000 else 0),
      localOffset = (\<lambda>t. if t < 1792890000000 + 3600000 then 3600000 else 0)\<rparr>"

text \<open>A host zone whose clock goes back by more than a resolution budget: Casey station
  around 8 March 2020, 03:00 on the local clock (7 March, 16:00 UTC, \<open>1583596800000\<close>),
  when the zone changes from eleven to eight hours east of UTC and the local clock goes
  back to 00:00.\<close>

definition AntarcticaCasey2020 :: TimeZone where
  "AntarcticaCasey2020 =
     \<lparr>utcOffset = (\<lambda>t. if t < 1583596800000 then 39600000 else 28800000),
      localOffset = (\<lambda>t. if t < 1583596800000 + 39600000 then 39600000 else 28800000)\<rparr>"

text \<open>A host zone without transitions, at \<open>minutes\<close> east of UTC.\<close>

definition fixedZone :: "int \<Rightarrow> TimeZone" where
  "fixedZone minutes =
     \<lparr>utcOffset = (\<lambda>t. minutes * msPerMinute), localOffset = (\<lambda>t. minutes * msPerMinute)\<rparr>"

section \<open>Vocabulary of the specification\<close>

text \<open>A keyword is a case-insensitive substring of a text when its lower-cased form occurs
  in the lower-cased text as a contiguous run of characters.\<close>

definition caseInsensitiveSubstring :: "string \<Rightarrow> string \<Rightarrow> bool" where
  "caseInsensitiveSubstring keyword text = sublist (toLowerCase keyword) (toLowerCase text)"

text \<open>The number of keywords of a list that are substrings of the lower-cased text.\<close>

definition matchCount :: "string \<Rightarrow> string list \<Rightarrow> nat" where
  "matchCount text keywords =
     length (filter (\<lambda>keyword. sublist keyword (toLowerCase text)) keywords)"

text \<open>A time plus a number of hours as a wall-clock (calendar) addition: the instant the
  host assigns to the local time of \<open>t\<close> advanced by \<open>hours\<close>.\<close>

definition wallClockPlusHours :: "TimeZone \<Rightarrow> int \<Rightarrow> int \<Rightarrow> int" where
  "wallClockPlusHours tz t hours = UTC tz (LocalTime tz t + hours * msPerHour)"

section \<open>Substring tests\<close>

lemma startsWith_prefix: "startsWith s k \<longleftrightarrow> prefix k s"
  by (induction s k rule: startsWith.induct) auto

lemma includes_str_sublist: "includes_str s k \<longleftrightarrow> sublist k s"
proof (induction s)
  case Nil
  then show ?case by simp
next
  case (Cons c cs)
  then show ?case
    by (simp add: startsWith_prefix sublist_Cons_right)
qed

lemma anyKeyword_iff:
  "anyKeyword (toLowerCase text) ks \<longleftrightarrow> (\<exists>k\<in>set ks. caseInsensitiveSubstring k text)"
  by (induction ks) (auto simp: includes_str_sublist caseInsensitiveSubstring_def)

lemma scanPriorities_first:
  assumes "entries = before @ (tier, keywords) # after"
    and "\<exists>k\<in>set keywords. caseInsensitiveSubstring k text"
    and "\<forall>(t, ks)\<in>set before. \<forall>k\<in>set ks. \<not> caseInsensitiveSubstring k text"
  shows "scanPriorities (toLowerCase text) entries = tier"
  using assms
proof (induction before arbitrary: entries)
  case Nil
  then show ?case by (simp add: anyKeyword_iff)
next
  case (Cons e before)
  obtain t ks where e: "e = (t, ks)" by (cases e)
  from Cons.prems(3) e have "\<not> anyKeyword (toLowerCase text) ks"
    by (auto simp: anyKeyword_iff)
  moreover have "scanPriorities (toLowerCase text) (before @ (tier, keywords) # after) = tier"
    using Cons.prems by (intro Cons.IH) auto
  ultimately show ?case using Cons.prems(1) e by simp
qed

lemma scanPriorities_none:
  assumes "\<forall>(t, ks)\<in>set entries. \<forall>k\<in>set ks. \<not> caseInsensitiveSubstring k text"
  shows "scanPriorities (toLowerCase text) entries = ''medium''"
  using assms by (induction entries) (auto simp: anyKeyword_iff)

lemma caseInsensitiveSubstring_code:
  "caseInsensitiveSubstring k text = includes_str (toLowerCase text) (toLowerCase k)"
  by (simp add: caseInsensitiveSubstring_def includes_str_sublist)

section \<open>Priority detection\<close>

text \<open>
  Claim C1. For every text, \<open>detectPriority\<close> lower-cases the text and goes through the
  tiers in the declared order critical, high, medium, low; it returns the first tier one of
  whose keywords is a case-insensitive substring of the text, whatever matches in the tiers
  after it; when no keyword of any tier matches, as for the empty text, it returns
  \<open>medium\<close>.
\<close>

theorem detectPriority_first_matching_tier:
  "map fst PRIORITY_KEYWORDS = [''critical'', ''high'', ''medium'', ''low'']
   \<and> (\<forall>before tier keywords after.
         PRIORITY_KEYWORDS = before @ (tier, keywords) # after
         \<and> (\<exists>k\<in>set keywords. caseInsensitiveSubstring k text)
         \<and> (\<forall>(t, ks)\<in>set before. \<forall>k\<in>set ks. \<not> caseInsensitiveSubstring k text)
         \<longrightarrow> detectPriority text = tier)
   \<and> ((\<forall>(t, ks)\<in>set PRIORITY_KEYWORDS. \<forall>k\<in>set ks. \<not> caseInsensitiveSubstring k text)
         \<longrightarrow> detectPriority text = ''medium'')
   \<and> detectPriority [] = ''medium''"
proof (intro conjI allI impI)
  show "map fst PRIORITY_KEYWORDS = [''critical'', ''high'', ''medium'', ''low'']"
    by (simp add: PRIORITY_KEYWORDS_def)
next
  fix before tier kws after
  assume "PRIORITY_KEYWORDS = before @ (tier, kws) # after
         \<and> (\<exists>k\<in>set kws. caseInsensitiveSubstring k text)
         \<and> (\<forall>(t, ks)\<in>set before. \<forall>k\<in>set ks. \<not> caseInsensitiveSubstring k text)"
  then show "detectPriority text = tier"
    unfolding detectPriority_def by (intro scanPriorities_first) auto
next
  assume "\<forall>(t, ks)\<in>set PRIORITY_KEYWORDS. \<forall>k\<in>set ks. \<not> caseInsensitiveSubstring k text"
  then show "detectPriority text = ''medium''"
    unfolding detectPriority_def by (rule scanPriorities_none)
next
  show "detectPriority [] = ''medium''"
    by code_simp
qed

theorem detectPriority_first_matching_tier_witness:
  "detectPriority ''Urgent problem, no rush'' = ''high''
   \<and> detectPriority ''what time do you open on Sundays'' = ''medium''"
proof
  let ?text = "''Urgent problem, no rush''"
  have split: "PRIORITY_KEYWORDS = [hd PRIORITY_KEYWORDS] @ (''high'', snd (PRIORITY_KEYWORDS ! 1)) # drop 2 PRIORITY_KEYWORDS"
    by (simp add: PRIORITY_KEYWORDS_def)
  have hit: "\<exists>k\<in>set (snd (PRIORITY_KEYWORDS ! 1)). caseInsensitiveSubstring k ?text"
    unfolding caseInsensitiveSubstring_code by code_simp
  have miss: "\<forall>(t, ks)\<in>set [hd PRIORITY_KEYWORDS]. \<forall>k\<in>set ks. \<not> caseInsensitiveSubstring k ?text"
    unfolding caseInsensitiveSubstring_code by code_simp
  from detectPriority_first_matching_tier [of ?text] split hit miss
  show "detectPriority ?text = ''high''" by blast
next
  let ?text = "''what time do you open on Sundays''"
  have "\<forall>(t, ks)\<in>set PRIORITY_KEYWORDS. \<forall>k\<in>set ks. \<not> caseInsensitiveSubstring k ?text"
    unfolding caseInsensitiveSubstring_code by code_simp
  with detectPriority_first_matching_tier [of ?text]
  show "detectPriority ?text = ''medium''" by blast
qed

section \<open>Category detection\<close>

lemma countMatches_filter:
  "countMatches t ks n = n + length (filter (\<lambda>k. includes_str t (toLowerCase k)) ks)"
  by (induction ks arbitrary: n) auto

lemma countMatches_matchCount:
  assumes "\<forall>k\<in>set ks. toLowerCase k = k"
  shows "countMatches (toLowerCase text) ks 0 = matchCount text ks"
proof -
  have "filter (\<lambda>k. includes_str (toLowerCase text) (toLowerCase k)) ks
        = filter (\<lambda>k. sublist k (toLowerCase text)) ks"
    using assms by (intro filter_cong) (auto simp: includes_str_sublist)
  then show ?thesis by (simp add: countMatches_filter matchCount_def)
qed

lemma scanCategories_keep:
  "\<forall>(c, ks)\<in>set entries. countMatches t ks 0 \<le> m \<Longrightarrow> scanCategories t entries (b, m) = (b, m)"
  by (induction entries) auto

lemma scanCategories_pick:
  assumes "\<not> (\<forall>(c, ks)\<in>set entries. countMatches t ks 0 \<le> m)"
  shows "\<exists>before c ks after.
           entries = before @ (c, ks) # after
           \<and> scanCategories t entries (b, m) = (c, countMatches t ks 0)
           \<and> m < countMatches t ks 0
           \<and> (\<forall>(c', ks')\<in>set before. countMatches t ks' 0 < countMatches t ks 0)
           \<and> (\<forall>(c', ks')\<in>set after. countMatches t ks' 0 \<le> countMatches t ks 0)"
  using assms
proof (induction entries arbitrary: b m)
  case Nil
  then show ?case by simp
next
  case (Cons e rest)
  obtain c0 k0 where e: "e = (c0, k0)" by (cases e)
  let ?n = "countMatches t k0 0"
  show ?case
  proof (cases "?n > m")
    case True
    note bigger = this
    show ?thesis
    proof (cases "\<forall>(c, ks)\<in>set rest. countMatches t ks 0 \<le> ?n")
      case True
      then have "scanCategories t rest (c0, ?n) = (c0, ?n)"
        by (rule scanCategories_keep)
      with bigger e have "scanCategories t (e # rest) (b, m) = (c0, ?n)" by simp
      with True bigger e have
        "e # rest = [] @ (c0, k0) # rest
         \<and> scanCategories t (e # rest) (b, m) = (c0, ?n) \<and> m < ?n
         \<and> (\<forall>(c', ks')\<in>set []. countMatches t ks' 0 < ?n)
         \<and> (\<forall>(c', ks')\<in>set rest. countMatches t ks' 0 \<le> ?n)"
        by simp
      then show ?thesis by blast
    next
      case False
      from Cons.IH [OF False, of c0] obtain before c ks after where
        r: "rest = before @ (c, ks) # after"
        and s: "scanCategories t rest (c0, ?n) = (c, countMatches t ks 0)"
        and lt: "?n < countMatches t ks 0"
        and bf: "\<forall>(c', ks')\<in>set before. countMatches t ks' 0 < countMatches t ks 0"
        and af: "\<forall>(c', ks')\<in>set after. countMatches t ks' 0 \<le> countMatches t ks 0"
        by blast
      from bigger e s have "scanCategories t (e # rest) (b, m) = (c, countMatches t ks 0)"
        by simp
      moreover from r have "e # rest = (e # before) @ (c, ks) # after" by simp
      moreover from bigger lt have "m < countMatches t ks 0" by simp
      moreover from bf lt e
      have "\<forall>(c', ks')\<in>set (e # before). countMatches t ks' 0 < countMatches t ks 0" by simp
      ultimately show ?thesis using af by blast
    qed
  next
    case False
    with Cons.prems e have rest: "\<not> (\<forall>(c, ks)\<in>set rest. countMatches t ks 0 \<le> m)"
      by auto
    from Cons.IH [OF rest, of b] obtain before c ks after where
      r: "rest = before @ (c, ks) # after"
      and s: "scanCategories t rest (b, m) = (c, countMatches t ks 0)"
      and lt: "m < countMatches t ks 0"
      and bf: "\<forall>(c', ks')\<in>set before. countMatches t ks' 0 < countMatches t ks 0"
      and af: "\<forall>(c', ks')\<in>set after. countMatches t ks' 0 \<le> countMatches t ks 0"
      by blast
    from False e s have "scanCategories t (e # rest) (b, m) = (c, countMatches t ks 0)"
      by simp
    moreover from r have "e # rest = (e # before) @ (c, ks) # after" by simp
    moreover from bf lt e False
    have "\<forall>(c', ks')\<in>set (e # before). countMatches t ks' 0 < countMatches t ks 0" by simp
    ultimately show ?thesis using af lt by blast
  qed
qed

lemma CATEGORY_KEYWORDS_lower:
  "\<forall>(c, ks)\<in>set CATEGORY_KEYWORDS. \<forall>k\<in>set ks. toLowerCase k = k"
  by code_simp

lemma category_count:
  assumes "(c, ks) \<in> set CATEGORY_KEYWORDS"
  shows "countMatches (toLowerCase text) ks 0 = matchCount text ks"
  using assms CATEGORY_KEYWORDS_lower by (intro countMatches_matchCount) blast

text \<open>
  Claim C2. For every text, \<open>detectCategory\<close> lower-cases the text and counts for each
  category how many of its keywords are substrings of the text. When every count is zero,
  as for the empty text, the result is \<open>Customer Service\<close>. Otherwise the result is a
  category of the table whose count is greatest, every category declared before it having
  a strictly smaller count: the first category to reach the maximum wins a tie.
\<close>

theorem detectCategory_first_maximum:
  "(if \<forall>(c, ks)\<in>set CATEGORY_KEYWORDS. matchCount text ks = 0
    then detectCategory text = ''Customer Service''
    else \<exists>before kws after.
           CATEGORY_KEYWORDS = before @ (detectCategory text, kws) # after
           \<and> (\<forall>(c, ks)\<in>set before. matchCount text ks < matchCount text kws)
           \<and> (\<forall>(c, ks)\<in>set after. matchCount text ks \<le> matchCount text kws))
   \<and> detectCategory [] = ''Customer Service''"
proof (intro conjI)
  let ?t = "toLowerCase text"
  show "if \<forall>(c, ks)\<in>set CATEGORY_KEYWORDS. matchCount text ks = 0
    then detectCategory text = ''Customer Service''
    else \<exists>before kws after.
           CATEGORY_KEYWORDS = before @ (detectCategory text, kws) # after
           \<and> (\<forall>(c, ks)\<in>set before. matchCount text ks < matchCount text kws)
           \<and> (\<forall>(c, ks)\<in>set after. matchCount text ks \<le> matchCount text kws)"
  proof (cases "\<forall>(c, ks)\<in>set CATEGORY_KEYWORDS. matchCount text ks = 0")
    case True
    then have "\<forall>(c, ks)\<in>set CATEGORY_KEYWORDS. countMatches ?t ks 0 \<le> 0"
      using category_count by fastforce
    then have "scanCategories ?t CATEGORY_KEYWORDS (''Customer Service'', 0) = (''Customer Service'', 0)"
      by (rule scanCategories_keep)
    with True show ?thesis by (simp add: detectCategory_def)
  next
    case False
    then have "\<not> (\<forall>(c, ks)\<in>set CATEGORY_KEYWORDS. countMatches ?t ks 0 \<le> 0)"
      using category_count by fastforce
    from scanCategories_pick [OF this, of "''Customer Service''"]
    obtain before c ks after where
      r: "CATEGORY_KEYWORDS = before @ (c, ks) # after"
      and s: "scanCategories ?t CATEGORY_KEYWORDS (''Customer Service'', 0) = (c, countMatches ?t ks 0)"
      and bf: "\<forall>(c', ks')\<in>set before. countMatches ?t ks' 0 < countMatches ?t ks 0"
      and af: "\<forall>(c', ks')\<in>set after. countMatches ?t ks' 0 \<le> countMatches ?t ks 0"
      by blast
    from s have d: "detectCategory text = c" by (simp add: detectCategory_def)
    have "set CATEGORY_KEYWORDS = set (before @ (c, ks) # after)"
      using r by (rule arg_cong)
    then have mem: "\<And>e. e \<in> set before \<or> e = (c, ks) \<or> e \<in> set after \<Longrightarrow> e \<in> set CATEGORY_KEYWORDS"
      by auto
    have "\<forall>(c', ks')\<in>set before. matchCount text ks' < matchCount text ks"
      using bf mem category_count by (metis (mono_tags, lifting) case_prodD case_prodI2)
    moreover have "\<forall>(c', ks')\<in>set after. matchCount text ks' \<le> matchCount text ks"
      using af mem category_count by (metis (mono_tags, lifting) case_prodD case_prodI2)
    ultimately show ?thesis using False r d by auto
  qed
next
  show "detectCategory [] = ''Customer Service''" by code_simp
qed

theorem detectCategory_first_maximum_witness:
  "detectCategory ''hello'' = ''Customer Service''
   \<and> detectCategory ''app crashed, rude staff'' = ''Booking & Technology''"
proof
  have none: "\<forall>(c, ks)\<in>set CATEGORY_KEYWORDS. matchCount ''hello'' ks = 0"
    by code_simp
  from detectCategory_first_maximum [of "''hello''"]
  have "if \<forall>(c, ks)\<in>set CATEGORY_KEYWORDS. matchCount ''hello'' ks = 0
    then detectCategory ''hello'' = ''Customer Service''
    else \<exists>before kws after.
           CATEGORY_KEYWORDS = before @ (detectCategory ''hello'', kws) # after
           \<and> (\<forall>(c, ks)\<in>set before. matchCount ''hello'' ks < matchCount ''hello'' kws)
           \<and> (\<forall>(c, ks)\<in>set after. matchCount ''hello'' ks \<le> matchCount ''hello'' kws)"
    by (rule conjunct1)
  with none show "detectCategory ''hello'' = ''Customer Service''"
    by (simp only: if_True)
next
  let ?text = "''app crashed, rude staff''"
  have first: "matchCount ?text (snd (hd CATEGORY_KEYWORDS)) = 2"
    by code_simp
  have most: "\<forall>(c, ks)\<in>set CATEGORY_KEYWORDS. matchCount ?text ks \<le> 2"
    by code_simp
  have head: "fst (hd CATEGORY_KEYWORDS) = ''Booking & Technology''"
    by (simp add: CATEGORY_KEYWORDS_def)
  have nonempty: "CATEGORY_KEYWORDS \<noteq> []"
    by (simp add: CATEGORY_KEYWORDS_def)
  have some: "\<not> (\<forall>(c, ks)\<in>set CATEGORY_KEYWORDS. matchCount ?text ks = 0)"
  proof
    assume zero: "\<forall>(c, ks)\<in>set CATEGORY_KEYWORDS. matchCount ?text ks = 0"
    have "hd CATEGORY_KEYWORDS \<in> set CATEGORY_KEYWORDS"
      using nonempty by (rule hd_in_set)
    with zero have "case hd CATEGORY_KEYWORDS of (c, ks) \<Rightarrow> matchCount ?text ks = 0"
      by (rule bspec)
    then have "matchCount ?text (snd (hd CATEGORY_KEYWORDS)) = 0"
      by (simp add: case_prod_beta)
    with first show False by simp
  qed
  from detectCategory_first_maximum [of ?text]
  have "if \<forall>(c, ks)\<in>set CATEGORY_KEYWORDS. matchCount ?text ks = 0
    then detectCategory ?text = ''Customer Service''
    else \<exists>before kws after.
           CATEGORY_KEYWORDS = before @ (detectCategory ?text, kws) # after
           \<and> (\<forall>(c, ks)\<in>set before. matchCount ?text ks < matchCount ?text kws)
           \<and> (\<forall>(c, ks)\<in>set after. matchCount ?text ks \<le> matchCount ?text kws)"
    by (rule conjunct1)
  with some have "\<exists>before kws after.
           CATEGORY_KEYWORDS = before @ (detectCategory ?text, kws) # after
           \<and> (\<forall>(c, ks)\<in>set before. matchCount ?text ks < matchCount ?text kws)
           \<and> (\<forall>(c, ks)\<in>set after. matchCount ?text ks \<le> matchCount ?text kws)"
    by (simp only: if_False)
  then obtain before kws after where
    r: "CATEGORY_KEYWORDS = before @ (detectCategory ?text, kws) # after"
    and bf: "\<forall>(c, ks)\<in>set before. matchCount ?text ks < matchCount ?text kws"
    by blast
  have "set CATEGORY_KEYWORDS = set (before @ (detectCategory ?text, kws) # after)"
    using r by (rule arg_cong)
  then have "(detectCategory ?text, kws) \<in> set CATEGORY_KEYWORDS" by simp
  with most have "case (detectCategory ?text, kws) of (c, ks) \<Rightarrow> matchCount ?text ks \<le> 2"
    by (rule bspec)
  then have le: "matchCount ?text kws \<le> 2" by simp
  have hd_eq: "hd CATEGORY_KEYWORDS = hd (before @ (detectCategory ?text, kws) # after)"
    using r by (rule arg_cong)
  show "detectCategory ?text = ''Booking & Technology''"
  proof (cases before)
    case Nil
    with hd_eq have "hd CATEGORY_KEYWORDS = (detectCategory ?text, kws)" by simp
    with head show ?thesis by simp
  next
    case (Cons e es)
    with hd_eq have "hd CATEGORY_KEYWORDS = e" by simp
    moreover from Cons bf have "case e of (c, ks) \<Rightarrow> matchCount ?text ks < matchCount ?text kws"
      by simp
    ultimately have "matchCount ?text (snd (hd CATEGORY_KEYWORDS)) < matchCount ?text kws"
      by (simp add: case_prod_beta)
    with first le show ?thesis by simp
  qed
qed

section \<open>Class details\<close>

lemma anyKeyword_sublist:
  "anyKeyword t ks \<longleftrightarrow> (\<exists>k\<in>set ks. sublist (toLowerCase k) t)"
  by (induction ks) (auto simp: includes_str_sublist)

lemma MEMBER_EXPERIENCE_KEYWORDS_lower:
  "\<forall>k\<in>set MEMBER_EXPERIENCE_KEYWORDS. toLowerCase k = k"
  by code_simp

text \<open>
  Claim C5. For every text and every category, \<open>requiresClassDetails\<close> is true when the
  priority is \<open>critical\<close>. For any other priority it is true exactly when the category is
  \<open>Customer Service\<close> or \<open>Health & Safety\<close> and some keyword of the member-experience list
  is a substring of the lower-cased text; in every other case it is false.
\<close>

theorem requiresClassDetails_cases:
  "requiresClassDetails text ''critical'' category
   \<and> requiresClassDetails text prio category =
     (prio = ''critical''
      \<or> ((category = ''Customer Service'' \<or> category = ''Health & Safety'')
           \<and> (\<exists>keyword\<in>set MEMBER_EXPERIENCE_KEYWORDS. sublist keyword (toLowerCase text))))"
proof -
  have "anyKeyword (toLowerCase text) MEMBER_EXPERIENCE_KEYWORDS
        \<longleftrightarrow> (\<exists>keyword\<in>set MEMBER_EXPERIENCE_KEYWORDS. sublist keyword (toLowerCase text))"
    using MEMBER_EXPERIENCE_KEYWORDS_lower by (auto simp: anyKeyword_sublist)
  then show ?thesis
    by (simp add: requiresClassDetails_def)
qed

theorem requiresClassDetails_cases_witness:
  "requiresClassDetails ''Anything'' ''critical'' ''Retail Management''
   \<and> requiresClassDetails ''The CLASS was late'' ''high'' ''Customer Service''
   \<and> \<not> requiresClassDetails ''The CLASS was late'' ''high'' ''Retail Management''
   \<and> \<not> requiresClassDetails ''Rude'' ''high'' ''Customer Service''"
proof -
  have hit: "\<exists>keyword\<in>set MEMBER_EXPERIENCE_KEYWORDS. sublist keyword (toLowerCase ''The CLASS was late'')"
    by code_simp
  have miss: "\<not> (\<exists>keyword\<in>set MEMBER_EXPERIENCE_KEYWORDS. sublist keyword (toLowerCase ''Rude''))"
    by code_simp
  show ?thesis
    using hit miss
      requiresClassDetails_cases [of "''Anything''" "''Retail Management''" "''critical''"]
      requiresClassDetails_cases [of "''The CLASS was late''" "''Customer Service''" "''high''"]
      requiresClassDetails_cases [of "''The CLASS was late''" "''Retail Management''" "''high''"]
      requiresClassDetails_cases [of "''Rude''" "''Customer Service''" "''high''"]
    by simp
qed

section \<open>Escalation rules\<close>

lemma getMember_own:
  "map_of table key = Some v \<Longrightarrow> getMember table key = Entry v"
  by (simp add: getMember_def)

lemma getEscalationRule_own:
  "map_of ESCALATION_RULES key = Some rule \<Longrightarrow> getEscalationRule key = Entry rule"
  by (simp add: getEscalationRule_def getMember_def orElse_def truthy_def)

lemma getEscalationRule_absent:
  "map_of ESCALATION_RULES key = None \<Longrightarrow> key \<notin> set ObjectPrototype \<Longrightarrow> getEscalationRule key = Null"
  by (simp add: getEscalationRule_def getMember_def orElse_def truthy_def)

lemma getEscalationRule_examples:
  "getEscalationRule ''Theft''
     = Entry \<lparr>escalateTo = ''Security'', priority = ''critical'', immediate = True,
              notifyLevel = ''management''\<rparr>"
  "getEscalationRule ''Not A Real Subcategory'' = Null"
  "getEscalationRule ''theft'' = Null"
  by code_simp+

text \<open>
  Claim C7. \<open>getEscalationRule\<close> is to return the rule of a key of the escalation table and
  an explicit absent result (\<open>Null\<close>) for every other key. It never throws, it returns the
  rule of each key of the table (\<open>getEscalationRule_own\<close>), and \<open>Null\<close> for a key that is
  neither in the table nor a member of \<^verbatim>\<open>Object.prototype\<close> (\<open>getEscalationRule_absent\<close>).
  For the name of such a member the claim fails: \<^verbatim>\<open>ESCALATION_RULES["constructor"]\<close> is
  the inherited function, which is truthy, so \<^verbatim>\<open>|| null\<close> does not replace it. The
  key \<open>constructor\<close> is not in the table, and the result is not \<open>Null\<close>.
\<close>

theorem getEscalationRule_inherited_member:
  "map_of ESCALATION_RULES ''constructor'' = None
   \<and> getEscalationRule ''constructor'' = Builtin ''constructor''
   \<and> getEscalationRule ''constructor'' \<noteq> Null"
  by code_simp

section \<open>Department routing\<close>

lemma getDepartmentRouting_own:
  "map_of DEPARTMENT_ROUTING key = Some route \<Longrightarrow> getDepartmentRouting key = Entry route"
  by (simp add: getDepartmentRouting_def getMember_def orElse_def truthy_def)

lemma getDepartmentRouting_fallback:
  "map_of DEPARTMENT_ROUTING key = None \<Longrightarrow> key \<notin> set ObjectPrototype \<Longrightarrow>
   getDepartmentRouting key = getDepartmentRouting ''Miscellaneous''"
  by (simp add: getDepartmentRouting_def getMember_def orElse_def truthy_def)

lemma getDepartmentRouting_examples:
  "getDepartmentRouting ''NonexistentCategory'' = getDepartmentRouting ''Miscellaneous''"
  "getDepartmentRouting ''Miscellaneous''
     = Entry \<lparr>primary = ''Operations'', secondary = ''Client Success'',
              escalationPath = [''Operations'', ''Client Success'', ''Management'']\<rparr>"
  by code_simp+

text \<open>
  Claim C6. \<open>getDepartmentRouting\<close> is to return the routing entry of a category of the
  table and the entry of \<open>Miscellaneous\<close> for every other string. It never throws, it returns
  the entry of each key of the table (\<open>getDepartmentRouting_own\<close>), and the fallback for a
  string that is neither in the table nor a member of \<^verbatim>\<open>Object.prototype\<close>
  (\<open>getDepartmentRouting_fallback\<close>), as for \<open>NonexistentCategory\<close>. For the name of such
  a member the claim fails: \<^verbatim>\<open>DEPARTMENT_ROUTING["toString"]\<close> is the inherited function,
  which is truthy, so the fallback after \<^verbatim>\<open>||\<close> is not taken. The string \<open>toString\<close> is
  not in the table, and the result is not the entry of \<open>Miscellaneous\<close>.
\<close>

theorem getDepartmentRouting_inherited_member:
  "map_of DEPARTMENT_ROUTING ''toString'' = None
   \<and> getDepartmentRouting ''toString'' = Builtin ''toString''
   \<and> getDepartmentRouting ''toString'' \<noteq> getDepartmentRouting ''Miscellaneous''"
  by code_simp

section \<open>Well-formedness of the tables\<close>

text \<open>
  Claim C8. Every entry of the escalation table has a resulting priority that is a key of
  the SLA table, whose keys are \<open>critical\<close>, \<open>high\<close>, \<open>medium\<close> and \<open>low\<close>.
\<close>

theorem ESCALATION_RULES_priorities_valid:
  "(\<forall>(key, rule)\<in>set ESCALATION_RULES. priority rule \<in> set (map fst SLA_RULES))
   \<and> map fst SLA_RULES = [''critical'', ''high'', ''medium'', ''low'']"
  by code_simp

theorem ESCALATION_RULES_priorities_valid_witness:
  "(''App Outage'', \<lparr>escalateTo = ''IT/Tech Support'', priority = ''high'', immediate = True,
       notifyLevel = ''department''\<rparr>) \<in> set ESCALATION_RULES
   \<and> ''high'' \<in> set (map fst SLA_RULES)"
proof -
  let ?rule = "\<lparr>escalateTo = ''IT/Tech Support'', priority = ''high'', immediate = True,
       notifyLevel = ''department''\<rparr>"
  have m: "(''App Outage'', ?rule) \<in> set ESCALATION_RULES"
    by (simp add: ESCALATION_RULES_def)
  from ESCALATION_RULES_priorities_valid
  have "\<forall>(key, rule)\<in>set ESCALATION_RULES. priority rule \<in> set (map fst SLA_RULES)"
    by (rule conjunct1)
  from this m have "case (''App Outage'', ?rule) of (key, rule) \<Rightarrow> priority rule \<in> set (map fst SLA_RULES)"
    by (rule bspec)
  with m show ?thesis by simp
qed

section \<open>Routing of detected categories\<close>

lemma scanCategories_result:
  "fst (scanCategories t entries (b, m)) \<in> insert b (set (map fst entries))"
proof (induction entries arbitrary: b m)
  case Nil
  then show ?case by simp
next
  case (Cons e entries)
  obtain c ks where e: "e = (c, ks)" by (cases e)
  show ?case
  proof (cases "countMatches t ks 0 > m")
    case True
    with e have "scanCategories t (e # entries) (b, m) = scanCategories t entries (c, countMatches t ks 0)"
      by simp
    with Cons.IH [of c "countMatches t ks 0"] e show ?thesis by auto
  next
    case False
    with e have "scanCategories t (e # entries) (b, m) = scanCategories t entries (b, m)"
      by simp
    with Cons.IH [of b m] show ?thesis by auto
  qed
qed

lemma CATEGORY_KEYWORDS_routed:
  "\<forall>c\<in>set (map fst CATEGORY_KEYWORDS). c \<in> set (map fst DEPARTMENT_ROUTING)"
  by code_simp

text \<open>
  Claim C9. For every text, the category returned by \<open>detectCategory\<close> is one of the seven
  categories of the keyword table (the default \<open>Customer Service\<close> is one of them) and a key
  of the routing table: \<open>getDepartmentRouting\<close> of it is the entry of that key, the lookup
  before \<^verbatim>\<open>||\<close> being truthy, so that the fallback is not taken.
\<close>

theorem detectCategory_routed:
  "detectCategory text \<in> set (map fst CATEGORY_KEYWORDS)
   \<and> detectCategory text \<in> set (map fst DEPARTMENT_ROUTING)
   \<and> (\<exists>route. map_of DEPARTMENT_ROUTING (detectCategory text) = Some route
        \<and> getDepartmentRouting (detectCategory text) = Entry route)
   \<and> truthy (getMember DEPARTMENT_ROUTING (detectCategory text))"
proof -
  have "''Customer Service'' \<in> set (map fst CATEGORY_KEYWORDS)"
    by code_simp
  then have "insert ''Customer Service'' (set (map fst CATEGORY_KEYWORDS)) = set (map fst CATEGORY_KEYWORDS)"
    by (rule insert_absorb)
  moreover have "detectCategory text \<in> insert ''Customer Service'' (set (map fst CATEGORY_KEYWORDS))"
    unfolding detectCategory_def by (rule scanCategories_result)
  ultimately have c: "detectCategory text \<in> set (map fst CATEGORY_KEYWORDS)"
    by (simp only:)
  with CATEGORY_KEYWORDS_routed
  have d: "detectCategory text \<in> set (map fst DEPARTMENT_ROUTING)"
    by (rule bspec)
  then have "map_of DEPARTMENT_ROUTING (detectCategory text) \<noteq> None"
    by (simp add: map_of_eq_None_iff)
  then obtain route where
    r: "map_of DEPARTMENT_ROUTING (detectCategory text) = Some route" by blast
  with c d show ?thesis
    by (simp add: getDepartmentRouting_own getMember_own truthy_def)
qed

section \<open>Deadlines\<close>

lemma local_hours_added:
  "MakeDate (Day t) (MakeTime (HourFromTime t + h) (MinFromTime t) (SecFromTime t) (msFromTime t))
   = t + h * msPerHour"
proof -
  define a where "a = t div 1000"
  define b where "b = a div 60"
  define c where "c = b div 60"
  define r0 where "r0 = t mod 1000"
  define r1 where "r1 = a mod 60"
  define r2 where "r2 = b mod 60"
  define r3 where "r3 = c mod 24"
  define q where "q = c div 24"
  have "t = a * 1000 + r0" by (simp add: a_def r0_def)
  also have "a = b * 60 + r1" by (simp add: b_def r1_def)
  also have "b = c * 60 + r2" by (simp add: c_def r2_def)
  also have "c = q * 24 + r3" by (simp add: q_def r3_def)
  finally have t: "t = (((q * 24 + r3) * 60 + r2) * 60 + r1) * 1000 + r0" .
  have m: "t div 60000 = b"
    using zdiv_zmult2_eq [of 60 t 1000] by (simp add: a_def b_def)
  have hr: "t div 3600000 = c"
    using zdiv_zmult2_eq [of 60 t 60000] m by (simp add: c_def)
  have d: "t div 86400000 = q"
    using zdiv_zmult2_eq [of 24 t 3600000] hr by (simp add: q_def)
  have "q * 86400000 + ((r3 + h) * 3600000 + r2 * 60000 + r1 * 1000 + r0) = t + h * 3600000"
    by (subst t) (simp add: algebra_simps)
  then show ?thesis
    unfolding MakeDate_def MakeTime_def Day_def HourFromTime_def MinFromTime_def
        SecFromTime_def msFromTime_def msPerDay_def msPerHour_def msPerMinute_def m hr d
    unfolding a_def [symmetric] b_def [symmetric] r0_def [symmetric] r1_def [symmetric]
        r2_def [symmetric] r3_def [symmetric]
    by simp
qed

lemma SLA_RULES_entry:
  assumes "map_of SLA_RULES prio = Some sla"
  shows "prio \<in> set (map fst SLA_RULES)"
    and "getMember SLA_RULES prio = Entry sla"
    and "resolutionHours sla \<in> {2, 8, 24, 72}"
    and "escalationHours sla \<in> {1, 4, 12, 48}"
proof -
  from assms show "prio \<in> set (map fst SLA_RULES)"
    by (metis map_of_eq_None_iff option.distinct(1) set_map)
  from assms show "getMember SLA_RULES prio = Entry sla"
    by (simp add: getMember_def)
  from assms show "resolutionHours sla \<in> {2, 8, 24, 72}"
    by (auto simp: SLA_RULES_def split: if_splits)
  from assms show "escalationHours sla \<in> {1, 4, 12, 48}"
    by (auto simp: SLA_RULES_def split: if_splits)
qed

lemma setHours_getHours:
  "setHours tz (TimeValue t0) (num_add (getHours tz (TimeValue t0)) (Some hours))
   = TimeClip (UTC tz (LocalTime tz t0 + hours * msPerHour))"
  by (simp add: setHours_def getHours_def num_add_def Let_def local_hours_added)

lemma calculateSLADeadline_value:
  assumes "createdAt < length h" and "h ! createdAt = TimeValue t0"
    and "map_of SLA_RULES prio = Some sla"
  shows "calculateSLADeadline tz prio createdAt h
         = (Inr (length h),
            h @ [TimeClip (UTC tz (LocalTime tz t0 + resolutionHours sla * msPerHour))])"
  using assms SLA_RULES_entry(2) [OF assms(3)]
  by (simp add: calculateSLADeadline_def getField_def Let_def setHours_getHours)

text \<open>
  Claim C3, amended. For every priority of the SLA table and every valid creation time
  \<open>t0\<close>, \<open>calculateSLADeadline\<close> returns a new \<^verbatim>\<open>Date\<close> that holds \<open>t0\<close> plus the
  resolution hours of the priority as a wall-clock addition: the instant \<open>d\<close> the host
  assigns to the local time of \<open>t0\<close> advanced by that many hours, clipped to the range of a
  \<^verbatim>\<open>Date\<close>. When the offset the host applies to that local time exceeds the offset in
  force at \<open>t0\<close> by less than the budget, \<open>d\<close> is strictly after \<open>t0\<close> and \<open>isSLABreached\<close>
  of the deadline is false when the current time is \<open>t0\<close>. When \<open>d\<close> is within the range of
  a \<^verbatim>\<open>Date\<close>, the deadline holds \<open>d\<close> and \<open>isSLABreached\<close> of it is true one second after
  \<open>d\<close>. When the two offsets are equal, as in every zone without transitions, \<open>d\<close> is \<open>t0\<close>
  plus the resolution hours as a duration (3 600 000 ms each).
\<close>

theorem calculateSLADeadline_wall_clock:
  assumes "createdAt < length h" and "h ! createdAt = TimeValue t0"
    and "map_of SLA_RULES prio = Some sla"
  shows "calculateSLADeadline tz prio createdAt h
           = (Inr (length h), h @ [TimeClip (wallClockPlusHours tz t0 (resolutionHours sla))])
         \<and> (localOffset tz (LocalTime tz t0 + resolutionHours sla * msPerHour) - utcOffset tz t0
               < resolutionHours sla * msPerHour
             \<longrightarrow> t0 < wallClockPlusHours tz t0 (resolutionHours sla)
                 \<and> \<not> isSLABreached t0 (TimeClip (wallClockPlusHours tz t0 (resolutionHours sla))))
         \<and> (\<bar>wallClockPlusHours tz t0 (resolutionHours sla)\<bar> \<le> 8640000000000000
             \<longrightarrow> TimeClip (wallClockPlusHours tz t0 (resolutionHours sla))
                   = TimeValue (wallClockPlusHours tz t0 (resolutionHours sla))
                 \<and> isSLABreached (wallClockPlusHours tz t0 (resolutionHours sla) + 1000)
                      (TimeClip (wallClockPlusHours tz t0 (resolutionHours sla))))
         \<and> (localOffset tz (LocalTime tz t0 + resolutionHours sla * msPerHour) = utcOffset tz t0
             \<longrightarrow> wallClockPlusHours tz t0 (resolutionHours sla)
                   = t0 + resolutionHours sla * msPerHour)"
proof (intro conjI impI)
  show "calculateSLADeadline tz prio createdAt h
           = (Inr (length h), h @ [TimeClip (wallClockPlusHours tz t0 (resolutionHours sla))])"
    using calculateSLADeadline_value [OF assms, of tz]
    by (simp add: wallClockPlusHours_def)
next
  assume "localOffset tz (LocalTime tz t0 + resolutionHours sla * msPerHour) - utcOffset tz t0
               < resolutionHours sla * msPerHour"
  then show later: "t0 < wallClockPlusHours tz t0 (resolutionHours sla)"
    by (simp add: wallClockPlusHours_def UTC_def LocalTime_def)
  then show "\<not> isSLABreached t0 (TimeClip (wallClockPlusHours tz t0 (resolutionHours sla)))"
    by (simp add: isSLABreached_def TimeClip_def num_gt_def getTime_def)
next
  assume "\<bar>wallClockPlusHours tz t0 (resolutionHours sla)\<bar> \<le> 8640000000000000"
  then show valid: "TimeClip (wallClockPlusHours tz t0 (resolutionHours sla))
                   = TimeValue (wallClockPlusHours tz t0 (resolutionHours sla))"
    by (simp add: TimeClip_def)
  then show "isSLABreached (wallClockPlusHours tz t0 (resolutionHours sla) + 1000)
                      (TimeClip (wallClockPlusHours tz t0 (resolutionHours sla)))"
    by (simp add: isSLABreached_def num_gt_def getTime_def)
next
  assume "localOffset tz (LocalTime tz t0 + resolutionHours sla * msPerHour) = utcOffset tz t0"
  then show "wallClockPlusHours tz t0 (resolutionHours sla) = t0 + resolutionHours sla * msPerHour"
    by (simp add: wallClockPlusHours_def UTC_def LocalTime_def)
qed

text \<open>
  The amended claim at work: in India (five and a half hours east of UTC, no transitions)
  a ticket of priority \<open>high\<close> is due eight hours after its creation; in the United Kingdom,
  for a critical ticket created on 25 October 2026 at 01:30 summer time, the deadline is
  03:30 on the local clock, three hours after the creation since the clock went back in
  between. In both cases the deadline is not breached at the creation and is breached one
  second after it has passed.
\<close>

theorem calculateSLADeadline_wall_clock_witness:
  "calculateSLADeadline (fixedZone 330) ''high'' 0 [TimeValue 1792888200000]
     = (Inr 1, [TimeValue 1792888200000, TimeValue 1792917000000])
   \<and> 1792917000000 = 1792888200000 + 8 * msPerHour
   \<and> \<not> isSLABreached 1792888200000 (TimeValue 1792917000000)
   \<and> isSLABreached (1792917000000 + 1000) (TimeValue 1792917000000)
   \<and> calculateSLADeadline EuropeLondon2026 ''critical'' 0 [TimeValue 1792888200000]
     = (Inr 1, [TimeValue 1792888200000, TimeValue 1792899000000])
   \<and> 1792899000000 = 1792888200000 + 3 * msPerHour
   \<and> \<not> isSLABreached 1792888200000 (TimeValue 1792899000000)
   \<and> isSLABreached (1792899000000 + 1000) (TimeValue 1792899000000)"
proof -
  let ?high = "\<lparr>label = ''High'', responseMinutes = 60, resolutionHours = 8,
         escalationHours = 4,
         description = ''Urgent issues affecting customer experience''\<rparr>"
  let ?critical = "\<lparr>label = ''Critical'', responseMinutes = 15, resolutionHours = 2,
         escalationHours = 1,
         description = ''Immediate response required for safety/security issues''\<rparr>"
  let ?t0 = "1792888200000 :: int"
  have 1: "(0::nat) < length [TimeValue ?t0]" by simp
  have 2: "[TimeValue ?t0] ! 0 = TimeValue ?t0" by simp
  have h: "map_of SLA_RULES ''high'' = Some ?high" by (simp add: SLA_RULES_def)
  have c: "map_of SLA_RULES ''critical'' = Some ?critical" by (simp add: SLA_RULES_def)
  have len: "length [TimeValue ?t0] = 1" by simp
  have app: "\<And>d. [TimeValue ?t0] @ [d] = [TimeValue ?t0, d]" by simp

  let ?di = "wallClockPlusHours (fixedZone 330) ?t0 (resolutionHours ?high)"
  have di: "?di = 1792917000000"
    by (simp add: wallClockPlusHours_def UTC_def LocalTime_def fixedZone_def msPerHour_def)
  have i_same: "localOffset (fixedZone 330) (LocalTime (fixedZone 330) ?t0 + resolutionHours ?high * msPerHour)
      = utcOffset (fixedZone 330) ?t0"
    by (simp add: fixedZone_def)
  have i_jump: "localOffset (fixedZone 330) (LocalTime (fixedZone 330) ?t0 + resolutionHours ?high * msPerHour)
      - utcOffset (fixedZone 330) ?t0 < resolutionHours ?high * msPerHour"
    by (simp add: fixedZone_def msPerHour_def)
  have i_range: "\<bar>?di\<bar> \<le> 8640000000000000"
    unfolding di by simp
  note india = calculateSLADeadline_wall_clock [OF 1 2 h, of "fixedZone 330"]
  from india have "calculateSLADeadline (fixedZone 330) ''high'' 0 [TimeValue ?t0]
      = (Inr (length [TimeValue ?t0]), [TimeValue ?t0] @ [TimeClip ?di])"
    by (rule conjunct1)
  moreover from india i_range have "TimeClip ?di = TimeValue ?di" by blast
  ultimately have i1: "calculateSLADeadline (fixedZone 330) ''high'' 0 [TimeValue ?t0]
      = (Inr 1, [TimeValue ?t0, TimeValue 1792917000000])"
    by (simp only: len app di)
  from india i_same have "?di = ?t0 + resolutionHours ?high * msPerHour" by blast
  then have i2: "1792917000000 = ?t0 + 8 * msPerHour"
    unfolding di by simp
  from india i_jump i_range have "\<not> isSLABreached ?t0 (TimeValue ?di)"
    by (metis (no_types, lifting))
  then have i3: "\<not> isSLABreached ?t0 (TimeValue 1792917000000)"
    unfolding di .
  from india i_range have "isSLABreached (?di + 1000) (TimeValue ?di)"
    by (metis (no_types, lifting))
  then have i4: "isSLABreached (1792917000000 + 1000) (TimeValue 1792917000000)"
    unfolding di .

  let ?dl = "wallClockPlusHours EuropeLondon2026 ?t0 (resolutionHours ?critical)"
  have dl: "?dl = 1792899000000"
    by (simp add: wallClockPlusHours_def UTC_def LocalTime_def EuropeLondon2026_def msPerHour_def)
  have l_jump: "localOffset EuropeLondon2026 (LocalTime EuropeLondon2026 ?t0 + resolutionHours ?critical * msPerHour)
      - utcOffset EuropeLondon2026 ?t0 < resolutionHours ?critical * msPerHour"
    by (simp add: LocalTime_def EuropeLondon2026_def msPerHour_def)
  have l_range: "\<bar>?dl\<bar> \<le> 8640000000000000"
    unfolding dl by simp
  note london = calculateSLADeadline_wall_clock [OF 1 2 c, of EuropeLondon2026]
  from london have "calculateSLADeadline EuropeLondon2026 ''critical'' 0 [TimeValue ?t0]
      = (Inr (length [TimeValue ?t0]), [TimeValue ?t0] @ [TimeClip ?dl])"
    by (rule conjunct1)
  moreover from london l_range have "TimeClip ?dl = TimeValue ?dl" by blast
  ultimately have l1: "calculateSLADeadline EuropeLondon2026 ''critical'' 0 [TimeValue ?t0]
      = (Inr 1, [TimeValue ?t0, TimeValue 1792899000000])"
    by (simp only: len app dl)
  have l2: "1792899000000 = ?t0 + 3 * msPerHour" by (simp add: msPerHour_def)
  from london l_jump l_range have "\<not> isSLABreached ?t0 (TimeValue ?dl)"
    by (metis (no_types, lifting))
  then have l3: "\<not> isSLABreached ?t0 (TimeValue 1792899000000)"
    unfolding dl .
  from london l_range have "isSLABreached (?dl + 1000) (TimeValue ?dl)"
    by (metis (no_types, lifting))
  then have l4: "isSLABreached (1792899000000 + 1000) (TimeValue 1792899000000)"
    unfolding dl .
  from i1 i2 i3 i4 l1 l2 l3 l4 show ?thesis by blast
qed

text \<open>
  Without its conditions the claim fails. At Casey station the local times from 00:00 to
  03:00 of 8 March 2020 come twice. A critical ticket created at 00:10 of their second
  run (7 March, 16:10 UTC) gets the deadline 02:10 of their first run, the earlier of the two
  instants with that local time: one hour before the creation, so that the deadline is
  breached when the current time is \<open>t0\<close>. And for a ticket created at the last time value
  a \<^verbatim>\<open>Date\<close> can hold, in a host on UTC, the deadline is an Invalid Date: it is not \<open>t0\<close>
  plus the budget, and it is not breached at \<open>t0\<close> plus the budget plus one second.
\<close>

theorem calculateSLADeadline_future_counterexample:
  "calculateSLADeadline AntarcticaCasey2020 ''critical'' 0 [TimeValue 1583597400000]
     = (Inr 1, [TimeValue 1583597400000, TimeValue 1583593800000])
   \<and> isSLABreached 1583597400000 (TimeValue 1583593800000)
   \<and> calculateSLADeadline (fixedZone 0) ''critical'' 0 [TimeValue 8640000000000000]
     = (Inr 1, [TimeValue 8640000000000000, InvalidDate])
   \<and> \<not> isSLABreached (8640000000000000 + 2 * msPerHour + 1000) InvalidDate"
  by code_simp

lemma isNearingSLA_entry:
  assumes "map_of SLA_RULES prio = Some sla"
  shows "isNearingSLA now (TimeValue dueAt) prio
           = Inr (0 < dueAt - now \<and> dueAt - now \<le> escalationHours sla * 3600000)"
    and "isNearingSLA now InvalidDate prio = Inr False"
  using SLA_RULES_entry(2) [OF assms]
  by (simp_all add: isNearingSLA_def getField_def Let_def num_mul_def num_sub_def num_gt_def
      num_le_def getTime_def mult.commute)

lemma SLA_RULES_high:
  "map_of SLA_RULES ''high''
     = Some \<lparr>label = ''High'', responseMinutes = 60, resolutionHours = 8, escalationHours = 4,
          description = ''Urgent issues affecting customer experience''\<rparr>"
  by (simp add: SLA_RULES_def)

text \<open>
  Claim C4. For every due time and every priority of the SLA table, \<open>isNearingSLA\<close> is true
  if and only if the time remaining from the current time to the due time is strictly
  positive and at most the escalation window of the priority (an invalid due date has no
  remaining time, the result is false). For \<open>high\<close>, whose window is four hours, it is true
  when the due time is exactly four hours away, false at four hours and one second, and
  false when the remaining time is zero or negative.
\<close>

theorem isNearingSLA_window:
  "(map_of SLA_RULES prio = Some sla \<longrightarrow>
      isNearingSLA now (TimeValue dueAt) prio
        = Inr (0 < dueAt - now \<and> dueAt - now \<le> escalationHours sla * 3600000)
      \<and> isNearingSLA now InvalidDate prio = Inr False)
   \<and> isNearingSLA now (TimeValue (now + 4 * 3600000)) ''high'' = Inr True
   \<and> isNearingSLA now (TimeValue (now + 4 * 3600000 + 1000)) ''high'' = Inr False
   \<and> (remaining \<le> 0 \<longrightarrow> isNearingSLA now (TimeValue (now + remaining)) ''high'' = Inr False)"
  using isNearingSLA_entry(1) [where prio = prio and sla = sla and now = now and dueAt = dueAt]
    isNearingSLA_entry(2) [where prio = prio and sla = sla and now = now]
    isNearingSLA_entry(1) [OF SLA_RULES_high, where now = now and dueAt = "now + 4 * 3600000"]
    isNearingSLA_entry(1) [OF SLA_RULES_high, where now = now and dueAt = "now + 4 * 3600000 + 1000"]
    isNearingSLA_entry(1) [OF SLA_RULES_high, where now = now and dueAt = "now + remaining"]
  by simp

theorem isNearingSLA_window_witness:
  "isNearingSLA 1792888200000 (TimeValue 1792888200001) ''critical'' = Inr True
   \<and> isNearingSLA 1792888200000 (TimeValue 1792891800001) ''critical'' = Inr False
   \<and> isNearingSLA 1792888200000 InvalidDate ''critical'' = Inr False
   \<and> isNearingSLA 1792888200000 (TimeValue 1792888200000) ''high'' = Inr False"
proof -
  let ?sla = "\<lparr>label = ''Critical'', responseMinutes = 15, resolutionHours = 2,
         escalationHours = 1,
         description = ''Immediate response required for safety/security issues''\<rparr>"
  have k: "map_of SLA_RULES ''critical'' = Some ?sla" by (simp add: SLA_RULES_def)
  have r: "(0::int) \<le> 0" by simp
  from k r
    isNearingSLA_window [where prio = "''critical''" and sla = ?sla and now = 1792888200000
      and dueAt = 1792888200001 and remaining = 0]
    isNearingSLA_window [where prio = "''critical''" and sla = ?sla and now = 1792888200000
      and dueAt = 1792891800001 and remaining = 0]
  show ?thesis by simp
qed

text \<open>
  Claim C10. \<open>calculateSLADeadline\<close> does not change its \<open>createdAt\<close> argument: for every
  priority and every \<^verbatim>\<open>Date\<close> object \<open>createdAt\<close> of the heap, the object holds the same time
  value after the call, as does every other object that existed before it; for a priority
  of the SLA table the returned reference is a new object, different from \<open>createdAt\<close>.
\<close>

theorem calculateSLADeadline_frame:
  assumes "createdAt < length h"
  shows "(case calculateSLADeadline tz prio createdAt h of
            (result, h') \<Rightarrow>
              h' ! createdAt = h ! createdAt
              \<and> take (length h) h' = h
              \<and> (prio \<in> set (map fst SLA_RULES) \<longrightarrow>
                   result = Inr (length h) \<and> length h \<noteq> createdAt \<and> length h < length h'))"
proof -
  have member: "getField resolutionHours (getMember SLA_RULES prio) \<noteq> Inl TypeError"
    if "prio \<in> set (map fst SLA_RULES)"
  proof -
    from that have "map_of SLA_RULES prio \<noteq> None"
      by (simp add: map_of_eq_None_iff)
    then show ?thesis
      by (auto simp: getMember_def getField_def)
  qed
  show ?thesis
  proof (cases "getField resolutionHours (getMember SLA_RULES prio)")
    case (Inl e)
    with member have "prio \<notin> set (map fst SLA_RULES)"
      by (cases e) auto
    with Inl assms show ?thesis
      by (simp add: calculateSLADeadline_def Let_def nth_append)
  next
    case (Inr hours)
    with assms show ?thesis
      by (simp add: calculateSLADeadline_def Let_def nth_append)
  qed
qed

theorem calculateSLADeadline_frame_witness:
  "snd (calculateSLADeadline (fixedZone 0) ''low'' 1 [InvalidDate, TimeValue 1792888200000]) ! 1
     = TimeValue 1792888200000
   \<and> fst (calculateSLADeadline (fixedZone 0) ''low'' 1 [InvalidDate, TimeValue 1792888200000])
     = Inr 2"
proof -
  have 1: "(1::nat) < length [InvalidDate, TimeValue 1792888200000]" by simp
  have 2: "''low'' \<in> set (map fst SLA_RULES)" by (simp add: SLA_RULES_def)
  from calculateSLADeadline_frame [OF 1, where tz = "fixedZone 0" and prio = "''low''"] 2
  show ?thesis by (simp add: case_prod_beta)
qed

end
